theory Spec2Isabelle
  imports Complex_Main
begin

section \<open>The host framework, as far as the Gamma class uses it\<close>

text \<open>
  \<^verbatim>\<open>gamma.py\<close> builds nodes of a computation graph: a method call constructs tensors
  (and may raise while doing so), and the runtime later evaluates a tensor (and may raise
  while doing so). The model keeps both steps. A tensor is the dtype of the node, the
  elements it evaluates to, and the assertions that the runtime enforces before it
  produces them. Tensors are modelled at rank 0 and 1: \<open>scalar\<close> tells a rank-0 tensor,
  \<open>vals\<close> are the elements. Elements are real numbers: rounding, infinities and NaN of
  the machine formats are outside the model, so the transcendental and special functions
  of the runtime are parameters (\<open>math_fns\<close>) and only \<open>+\<close>, \<open>-\<close>, \<open>*\<close>, \<open>/\<close> are read as
  the arithmetic of the reals (\<open>/\<close> is only relied on for a nonzero divisor).
\<close>

datatype dtype = Float32 | Float64 | Int32

fun is_floating :: "dtype \<Rightarrow> bool" where
  "is_floating Float32 = True"
| "is_floating Float64 = True"
| "is_floating Int32 = False"

datatype error = TypeMismatchError | DomainError | ShapeError

datatype check = AssertPositive "real list"

record tensor =
  dtype :: dtype
  scalar :: bool
  vals :: "real list"
  deps :: "check list"

record math_fns =
  fn_log :: "real \<Rightarrow> real"
  fn_exp :: "real \<Rightarrow> real"
  fn_lgamma :: "real \<Rightarrow> real"
  fn_digamma :: "real \<Rightarrow> real"
  fn_igamma :: "real \<Rightarrow> real \<Rightarrow> real"

text \<open>
  Modelled from the spec: \<^verbatim>\<open>ops.convert_to_tensor\<close> and \<^verbatim>\<open>constant_op.constant\<close>, which
  are not in the source tree. The inputs of the model are tensors already, so the
  conversion returns its argument; a Python number met in an expression (\<^verbatim>\<open>alpha - 1\<close>)
  becomes a scalar constant of the dtype of the other operand. \<open>constant_op d v\<close> is the
  scalar constant \<open>v\<close> and \<open>vector d vs\<close> the rank-1 constant \<open>vs\<close>, neither carrying an
  assertion.
\<close>

definition convert_to_tensor :: "tensor \<Rightarrow> tensor" where
  "convert_to_tensor t = t"

definition constant_op :: "dtype \<Rightarrow> real \<Rightarrow> tensor" where
  "constant_op d v = \<lparr>dtype = d, scalar = True, vals = [v], deps = []\<rparr>"

definition vector :: "dtype \<Rightarrow> real list \<Rightarrow> tensor" where
  "vector d vs = \<lparr>dtype = d, scalar = False, vals = vs, deps = []\<rparr>"

text \<open>
  Modelled from the spec: \<^verbatim>\<open>contrib_tensor_util.assert_same_float_dtype\<close>, not in the
  source tree (``fails with TypeMismatchError if alpha and beta do not share the same
  floating-point precision'', ``if x's precision differs from the distribution's
  dtype''). It is raised while the graph is built. All tensors must have one dtype, the
  expected one when it is given, and that dtype must be a floating-point one.
\<close>

fun assert_same_base_type :: "tensor list \<Rightarrow> dtype option \<Rightarrow> error + dtype option" where
  "assert_same_base_type [] expected = Inr expected"
| "assert_same_base_type (t # ts) None = assert_same_base_type ts (Some (dtype t))"
| "assert_same_base_type (t # ts) (Some d) =
     (if d \<noteq> dtype t then Inl TypeMismatchError
      else assert_same_base_type ts (Some d))"

definition assert_same_float_dtype :: "tensor list \<Rightarrow> dtype option \<Rightarrow> error + dtype" where
  "assert_same_float_dtype tensors d =
     (case (if tensors \<noteq> [] then assert_same_base_type tensors d else Inr d) of
        Inl e \<Rightarrow> Inl e
      | Inr None \<Rightarrow> Inr Float32
      | Inr (Some d') \<Rightarrow> (if \<not> is_floating d' then Inl TypeMismatchError else Inr d'))"

text \<open>
  Modelled from the spec: the precondition mechanism of the runtime, not in the source
  tree (``a precondition-assertion mechanism that can be attached to a value and
  enforced before that value is used (raising on violation)''). \<^verbatim>\<open>check_ops.assert_positive\<close>
  only creates the assertion; \<^verbatim>\<open>control_flow_ops.with_dependencies\<close> returns a copy
  of a tensor that carries the assertions; a tensor computed from others inherits theirs.
  \<open>run\<close> is the evaluation of a tensor by the runtime: it raises \<open>DomainError\<close> when an
  assertion carried by the tensor does not hold.
\<close>

definition assert_positive :: "tensor \<Rightarrow> check" where
  "assert_positive x = AssertPositive (vals x)"

definition with_dependencies :: "check list \<Rightarrow> tensor \<Rightarrow> tensor" where
  "with_dependencies dependencies output_tensor =
     output_tensor\<lparr>deps := dependencies @ deps output_tensor\<rparr>"

fun check_holds :: "check \<Rightarrow> bool" where
  "check_holds (AssertPositive vs) = list_all (\<lambda>v. 0 < v) vs"

definition run :: "tensor \<Rightarrow> error + real list" where
  "run t = (if list_all check_holds (deps t) then Inr (vals t) else Inl DomainError)"

definition evaluate :: "error + tensor \<Rightarrow> error + real list" where
  "evaluate r = (case r of Inl e \<Rightarrow> Inl e | Inr t \<Rightarrow> run t)"

text \<open>
  \<open>evaluate\<close> is a call followed by the evaluation of what it returned. \<open>positive t\<close>
  says that every element of \<open>t\<close> is strictly positive, \<open>runs t\<close> that the assertions a
  tensor already carries hold (for a tensor given as an argument: that the argument
  itself can be evaluated).
\<close>

definition positive :: "tensor \<Rightarrow> bool" where
  "positive t \<longleftrightarrow> list_all (\<lambda>v. 0 < v) (vals t)"

definition runs :: "tensor \<Rightarrow> bool" where
  "runs t \<longleftrightarrow> list_all check_holds (deps t)"

text \<open>
  Modelled from the spec: ``broadcasting-aware elementwise arithmetic'' and the
  elementwise functions of \<^verbatim>\<open>math_ops\<close>, not in the source tree. At ranks 0 and 1 two
  operands are compatible when they have as many elements or one of them has one
  element; position \<open>i\<close> of the result combines the elements of the operands at \<open>i\<close>, a
  one-element operand being read at every position (\<open>bidx\<close>). An operation on operands
  of different dtypes is refused while the graph is built, before the shapes are looked
  at; operands whose shapes do not broadcast are refused with \<open>ShapeError\<close> (the
  docstring of \<^verbatim>\<open>__init__\<close>: the parameters ``must be shaped in a way that supports
  broadcasting''). The operands are results themselves, so that an expression raises what
  its first failing subexpression raises, left to right as Python evaluates it.
  \<open>inb xs i\<close> says that position \<open>i\<close> can be read in \<open>xs\<close> under broadcasting.
\<close>

definition broadcastable :: "real list \<Rightarrow> real list \<Rightarrow> bool" where
  "broadcastable xs ys \<longleftrightarrow> length xs = length ys \<or> length xs = 1 \<or> length ys = 1"

definition blen :: "nat \<Rightarrow> nat \<Rightarrow> nat" where
  "blen m n = (if m = 1 then n else m)"

definition bidx :: "real list \<Rightarrow> nat \<Rightarrow> real" where
  "bidx xs i = (if length xs = 1 then xs ! 0 else xs ! i)"

definition inb :: "real list \<Rightarrow> nat \<Rightarrow> bool" where
  "inb xs i \<longleftrightarrow> i < length xs \<or> length xs = 1"

definition bmap2 :: "(real \<Rightarrow> real \<Rightarrow> real) \<Rightarrow> real list \<Rightarrow> real list \<Rightarrow> real list" where
  "bmap2 f xs ys = map (\<lambda>i. f (bidx xs i) (bidx ys i)) [0..<blen (length xs) (length ys)]"

definition broadcast_op :: "(real \<Rightarrow> real \<Rightarrow> real) \<Rightarrow> real list \<Rightarrow> real list \<Rightarrow> error + real list" where
  "broadcast_op f xs ys =
     (if broadcastable xs ys then Inr (bmap2 f xs ys) else Inl ShapeError)"

definition binary_op :: "(real \<Rightarrow> real \<Rightarrow> real) \<Rightarrow> error + tensor \<Rightarrow> error + tensor \<Rightarrow> error + tensor" where
  "binary_op f ea eb =
     (case ea of Inl e \<Rightarrow> Inl e
      | Inr a \<Rightarrow>
         (case eb of Inl e \<Rightarrow> Inl e
          | Inr b \<Rightarrow>
             if dtype a \<noteq> dtype b then Inl TypeMismatchError
             else (case broadcast_op f (vals a) (vals b) of
                     Inl e \<Rightarrow> Inl e
                   | Inr vs \<Rightarrow>
                       Inr \<lparr>dtype = dtype a, scalar = (scalar a \<and> scalar b),
                            vals = vs, deps = deps a @ deps b\<rparr>)))"

definition unary_op :: "(real \<Rightarrow> real) \<Rightarrow> error + tensor \<Rightarrow> error + tensor" where
  "unary_op f ea = (case ea of Inl e \<Rightarrow> Inl e | Inr a \<Rightarrow> Inr (a\<lparr>vals := map f (vals a)\<rparr>))"

definition t_add :: "error + tensor \<Rightarrow> error + tensor \<Rightarrow> error + tensor" where
  "t_add = binary_op (\<lambda>u v. u + v)"

definition t_sub :: "error + tensor \<Rightarrow> error + tensor \<Rightarrow> error + tensor" where
  "t_sub = binary_op (\<lambda>u v. u - v)"

definition t_mul :: "error + tensor \<Rightarrow> error + tensor \<Rightarrow> error + tensor" where
  "t_mul = binary_op (\<lambda>u v. u * v)"

definition t_truediv :: "error + tensor \<Rightarrow> error + tensor \<Rightarrow> error + tensor" where
  "t_truediv = binary_op (\<lambda>u v. u / v)"

definition math_square :: "error + tensor \<Rightarrow> error + tensor" where
  "math_square = unary_op (\<lambda>u. u * u)"

definition math_log :: "math_fns \<Rightarrow> error + tensor \<Rightarrow> error + tensor" where
  "math_log fns = unary_op (fn_log fns)"

definition math_exp :: "math_fns \<Rightarrow> error + tensor \<Rightarrow> error + tensor" where
  "math_exp fns = unary_op (fn_exp fns)"

definition math_lgamma :: "math_fns \<Rightarrow> error + tensor \<Rightarrow> error + tensor" where
  "math_lgamma fns = unary_op (fn_lgamma fns)"

definition math_digamma :: "math_fns \<Rightarrow> error + tensor \<Rightarrow> error + tensor" where
  "math_digamma fns = unary_op (fn_digamma fns)"

definition math_igamma :: "math_fns \<Rightarrow> error + tensor \<Rightarrow> error + tensor \<Rightarrow> error + tensor" where
  "math_igamma fns = binary_op (fn_igamma fns)"

text \<open>
  Modelled from the spec: the static shape of a tensor (\<^verbatim>\<open>get_shape\<close>) and the tensor
  of its dimension sizes (\<^verbatim>\<open>array_ops.shape\<close>), not in the source tree.
\<close>

definition get_shape :: "tensor \<Rightarrow> nat list" where
  "get_shape t = (if scalar t then [] else [length (vals t)])"

definition array_shape :: "tensor \<Rightarrow> tensor" where
  "array_shape t = \<lparr>dtype = Int32, scalar = False, vals = map real (get_shape t), deps = deps t\<rparr>"

section \<open>The Gamma class\<close>

text \<open>
  The object holds the attributes \<^verbatim>\<open>__init__\<close> assigns (\<^verbatim>\<open>self._alpha\<close> is \<open>self_alpha\<close>).

  In \<^verbatim>\<open>__init__\<close> the two positivity assertions are created and named as the control
  inputs of a \<^verbatim>\<open>with ops.control_dependencies(...)\<close> block. Such a block gives its
  control inputs to the operations that are constructed inside it; the block of
  \<^verbatim>\<open>__init__\<close> holds three attribute assignments and constructs none, so \<open>self_alpha\<close>
  and \<open>self_beta\<close> are the converted arguments themselves. (The methods use
  \<^verbatim>\<open>with_dependencies\<close> instead, which does construct a tensor that carries the
  assertion.) Construction raises what \<^verbatim>\<open>assert_same_float_dtype\<close> raises and what the
  two divisions raise while the graph is built.
\<close>

record gamma =
  self_alpha :: tensor
  self_beta :: tensor
  self_name :: string
  self_mean :: tensor
  self_batch_shape :: "nat list"
  self_variance :: tensor
  self_event_shape :: "nat list"

definition Gamma_init :: "tensor \<Rightarrow> tensor \<Rightarrow> string \<Rightarrow> error + gamma" where
  "Gamma_init alpha0 beta0 name0 =
     (let alpha = convert_to_tensor alpha0;
          beta = convert_to_tensor beta0
      in case assert_same_float_dtype [alpha, beta] None of
           Inl e \<Rightarrow> Inl e
         | Inr _ \<Rightarrow>
            (let control_inputs = [assert_positive alpha, assert_positive beta];
                 a = alpha;
                 b = beta
             in case t_truediv (Inr a) (Inr b) of
                  Inl e \<Rightarrow> Inl e
                | Inr m \<Rightarrow>
                   (case t_truediv (Inr a) (math_square (Inr b)) of
                      Inl e \<Rightarrow> Inl e
                    | Inr v \<Rightarrow>
                        Inr \<lparr>self_alpha = a, self_beta = b, self_name = name0,
                             self_mean = m, self_batch_shape = get_shape m,
                             self_variance = v, self_event_shape = []\<rparr>)))"

definition name :: "gamma \<Rightarrow> string" where
  "name self = self_name self"

definition gamma_dtype :: "gamma \<Rightarrow> dtype" where
  "gamma_dtype self = dtype (self_alpha self)"

definition alpha :: "gamma \<Rightarrow> tensor" where
  "alpha self = self_alpha self"

definition beta :: "gamma \<Rightarrow> tensor" where
  "beta self = self_beta self"

definition batch_shape :: "gamma \<Rightarrow> tensor" where
  "batch_shape self = array_shape (self_mean self)"

definition get_batch_shape :: "gamma \<Rightarrow> nat list" where
  "get_batch_shape self = self_batch_shape self"

definition event_shape :: "gamma \<Rightarrow> tensor" where
  "event_shape self = constant_op Int32 1"

definition get_event_shape :: "gamma \<Rightarrow> nat list" where
  "get_event_shape self = self_event_shape self"

definition mean :: "gamma \<Rightarrow> tensor" where
  "mean self = self_mean self"

definition variance :: "gamma \<Rightarrow> tensor" where
  "variance self = self_variance self"

definition log_pdf :: "math_fns \<Rightarrow> gamma \<Rightarrow> tensor \<Rightarrow> error + tensor" where
  "log_pdf fns self x0 =
     (let a = self_alpha self;
          b = self_beta self;
          x1 = convert_to_tensor x0;
          x = with_dependencies [assert_positive x1] x1
      in case assert_same_float_dtype [x] (Some (gamma_dtype self)) of
           Inl e \<Rightarrow> Inl e
         | Inr _ \<Rightarrow>
            t_sub
              (t_sub
                (t_add
                  (t_mul (Inr a) (math_log fns (Inr b)))
                  (t_mul (t_sub (Inr a) (Inr (constant_op (dtype a) 1))) (math_log fns (Inr x))))
                (t_mul (Inr b) (Inr x)))
              (math_lgamma fns (Inr (self_alpha self))))"

definition pdf :: "math_fns \<Rightarrow> gamma \<Rightarrow> tensor \<Rightarrow> error + tensor" where
  "pdf fns self x = math_exp fns (log_pdf fns self x)"

definition log_cdf :: "math_fns \<Rightarrow> gamma \<Rightarrow> tensor \<Rightarrow> error + tensor" where
  "log_cdf fns self x0 =
     (let x1 = convert_to_tensor x0;
          x = with_dependencies [assert_positive x1] x1
      in case assert_same_float_dtype [x] (Some (gamma_dtype self)) of
           Inl e \<Rightarrow> Inl e
         | Inr _ \<Rightarrow>
            math_log fns
              (math_igamma fns (Inr (self_alpha self)) (t_mul (Inr (self_beta self)) (Inr x))))"

definition cdf :: "math_fns \<Rightarrow> gamma \<Rightarrow> tensor \<Rightarrow> error + tensor" where
  "cdf fns self x =
     math_igamma fns (Inr (self_alpha self)) (t_mul (Inr (self_beta self)) (Inr x))"

definition entropy :: "math_fns \<Rightarrow> gamma \<Rightarrow> error + tensor" where
  "entropy fns self =
     (let a = self_alpha self;
          b = self_beta self
      in t_add
           (t_add
             (t_sub (Inr a) (math_log fns (Inr b)))
             (math_lgamma fns (Inr a)))
           (t_mul (t_sub (Inr (constant_op (dtype a) 1)) (Inr a)) (math_digamma fns (Inr a))))"

definition is_reparameterized :: "gamma \<Rightarrow> bool" where
  "is_reparameterized self = False"

section \<open>The special functions at whole shape parameters, and the scenario of the spec\<close>

text \<open>
  Modelled from the spec: the functions a host runtime must supply (``natural log,
  exponential'', ``log-gamma, digamma, regularized lower incomplete gamma''), which are
  not in the source tree. \<open>whole_fns\<close> gives them over the reals for a whole shape
  parameter \<open>a = 1, 2, 3, ...\<close> (read through \<open>nat \<lfloor>a\<rfloor>\<close>), where they have closed
  forms: \<open>Gamma(a) = (a - 1)!\<close>, the digamma function is a harmonic number less the
  Euler-Mascheroni constant, and the regularized lower incomplete gamma function at
  \<open>u > 0\<close> is \<open>1 - exp (- u) * (\<Sum>k<a. u ^ k / k!)\<close>. The concrete scenarios of the spec
  have whole shape parameters. The general theorems below hold for every \<open>math_fns\<close>.
\<close>

definition euler_gamma :: real where
  "euler_gamma = lim (\<lambda>n. (\<Sum>k = 1..n. 1 / real k) - ln (real n))"

definition whole_fns :: math_fns where
  "whole_fns =
     \<lparr>fn_log = ln,
      fn_exp = exp,
      fn_lgamma = (\<lambda>a. ln (fact (nat \<lfloor>a\<rfloor> - 1))),
      fn_digamma = (\<lambda>a. (\<Sum>k = 1..<nat \<lfloor>a\<rfloor>. 1 / real k) - euler_gamma),
      fn_igamma = (\<lambda>a u. if u \<le> 0 then 0
                          else 1 - exp (- u) * (\<Sum>k<nat \<lfloor>a\<rfloor>. u ^ k / fact k))\<rparr>"

text \<open>
  Modelled from the spec: what the spec says of the regularized lower incomplete gamma
  function (``the normalized CDF kernel of the Gamma distribution, range [0,1]''): at
  shape \<open>a\<close> it takes its values in \<open>[0, 1]\<close> and does not decrease, on the arguments
  from \<open>0\<close> on.
\<close>

definition cdf_kernel :: "math_fns \<Rightarrow> real \<Rightarrow> bool" where
  "cdf_kernel fns a \<longleftrightarrow>
     (\<forall>u. 0 \<le> u \<longrightarrow> 0 \<le> fn_igamma fns a u \<and> fn_igamma fns a u \<le> 1) \<and>
     (\<forall>u v. 0 \<le> u \<and> u \<le> v \<longrightarrow> fn_igamma fns a u \<le> fn_igamma fns a v)"

text \<open>
  The object of the concrete scenario of the spec, \<^verbatim>\<open>Gamma(alpha=3.0, beta=2.0)\<close>: a
  Python float converts to a scalar \<open>Float32\<close> tensor.
\<close>

definition gamma_3_2 :: gamma where
  "gamma_3_2 =
     \<lparr>self_alpha = constant_op Float32 3, self_beta = constant_op Float32 2,
      self_name = ''Gamma'', self_mean = constant_op Float32 (3 / 2),
      self_batch_shape = [], self_variance = constant_op Float32 (3 / 4),
      self_event_shape = []\<rparr>"

text \<open>
  The object that \<^verbatim>\<open>Gamma(alpha=-1.0, beta=2.0)\<close> constructs.
\<close>

definition gamma_m1_2 :: gamma where
  "gamma_m1_2 =
     \<lparr>self_alpha = constant_op Float32 (- 1), self_beta = constant_op Float32 2,
      self_name = ''Gamma'', self_mean = constant_op Float32 (- 1 / 2),
      self_batch_shape = [], self_variance = constant_op Float32 (- 1 / 4),
      self_event_shape = []\<rparr>"

section \<open>Facts about the framework operations\<close>

subsection \<open>Broadcasting\<close>

lemma length_bmap2 [simp]: "length (bmap2 f xs ys) = blen (length xs) (length ys)"
  by (simp add: bmap2_def)

lemma bmap2_nth: "i < blen (length xs) (length ys) \<Longrightarrow> bmap2 f xs ys ! i = f (bidx xs i) (bidx ys i)"
  by (simp add: bmap2_def)

lemma bidx_bmap2: "inb (bmap2 f xs ys) i \<Longrightarrow> bidx (bmap2 f xs ys) i = f (bidx xs i) (bidx ys i)"
proof (cases "blen (length xs) (length ys) = 1")
  case True
  then have "length xs = 1" "length ys = 1"
    by (simp_all add: blen_def split: if_splits)
  then show ?thesis
    by (simp add: bidx_def bmap2_def blen_def)
next
  case False
  assume "inb (bmap2 f xs ys) i"
  with False have "i < blen (length xs) (length ys)"
    by (simp add: inb_def)
  with False show ?thesis
    by (simp add: bidx_def [of "bmap2 f xs ys"] bmap2_nth)
qed

lemma inb_map [simp]: "inb (map f xs) i = inb xs i"
  by (simp add: inb_def)

lemma bidx_map: "inb xs i \<Longrightarrow> bidx (map f xs) i = f (bidx xs i)"
  by (auto simp: inb_def bidx_def)

lemma bidx_single [simp]: "bidx [v] i = v"
  by (simp add: bidx_def)

lemma inb_single [simp]: "inb [v] i"
  by (simp add: inb_def)

lemma inb_of_index:
  assumes "broadcastable xs as" "broadcastable xs bs" "broadcastable as bs"
    and "i < blen (length as) (blen (length bs) (length xs))"
  shows "inb as i" "inb bs i" "inb xs i"
  using assms by (auto simp: broadcastable_def blen_def inb_def split: if_splits)

lemma bidx_list_all: "list_all P xs \<Longrightarrow> inb xs i \<Longrightarrow> P (bidx xs i)"
  by (auto simp: list_all_length inb_def bidx_def)

lemma bidx_list_all2: "list_all2 R xs ys \<Longrightarrow> inb xs i \<Longrightarrow> R (bidx xs i) (bidx ys i)"
  by (auto simp: list_all2_conv_all_nth inb_def bidx_def)

lemma list_of_length_1: "length r = 1 \<Longrightarrow> r = [r ! 0]"
  by (auto simp: list_eq_iff_nth_eq)

lemma list_of_length_2: "length r = 2 \<Longrightarrow> r = [r ! 0, r ! 1]"
  by (auto simp: list_eq_iff_nth_eq nth_Cons' less_Suc_eq eval_nat_numeral)

subsection \<open>Operations on tensors\<close>

lemma binary_op_Inr: "binary_op f (Inr a) (Inr b) =
   (if dtype a \<noteq> dtype b then Inl TypeMismatchError
    else if broadcastable (vals a) (vals b)
      then Inr \<lparr>dtype = dtype a, scalar = (scalar a \<and> scalar b),
               vals = bmap2 f (vals a) (vals b), deps = deps a @ deps b\<rparr>
    else Inl ShapeError)"
  by (simp add: binary_op_def broadcast_op_def)

lemma binary_op_Inl [simp]: "binary_op f (Inl e) eb = Inl e"
  by (simp add: binary_op_def)

lemma binary_op_Inl2 [simp]: "binary_op f (Inr a) (Inl e) = Inl e"
  by (simp add: binary_op_def)

lemma unary_op_Inr [simp]: "unary_op f (Inr a) = Inr (a\<lparr>vals := map f (vals a)\<rparr>)"
  by (simp add: unary_op_def)

lemma unary_op_Inl [simp]: "unary_op f (Inl e) = Inl e"
  by (simp add: unary_op_def)

section \<open>Facts about the real functions\<close>

text \<open>
  Bounds of \<open>exp\<close> by its Taylor polynomials give \<open>ln 2\<close> to six decimal places; the
  derivative of \<open>exp (- u) * (\<Sum>k\<le>n. u ^ k / k!)\<close> is \<open>- exp (- u) * u ^ n / n!\<close>, so
  the closed form of the incomplete gamma function at whole shapes does not decrease.
\<close>

lemma exp_upper_Taylor:
  fixes x :: real
  assumes "0 \<le> x" "x \<le> 1"
  shows "exp x \<le> (\<Sum>m<n. x ^ m / fact m) + 3 * x ^ n / fact n"
proof -
  obtain t where t: "\<bar>t\<bar> \<le> \<bar>x\<bar>" "exp x = (\<Sum>m<n. x ^ m / fact m) + (exp t / fact n) * x ^ n"
    using Maclaurin_exp_le [of x n] by blast
  from t(1) assms have "t \<le> 1" by linarith
  then have "exp t \<le> exp 1" by simp
  also have "\<dots> \<le> 3" by (rule exp_le)
  finally have "exp t \<le> 3" .
  moreover have "0 \<le> x ^ n / fact n" using assms by simp
  ultimately have "exp t * (x ^ n / fact n) \<le> 3 * (x ^ n / fact n)"
    by (rule mult_right_mono)
  with t(2) show ?thesis by (simp add: field_simps)
qed

lemma exp_lower_Taylor:
  fixes x :: real
  assumes "0 \<le> x"
  shows "(\<Sum>m<n. x ^ m / fact m) \<le> exp x"
proof -
  obtain t where t: "exp x = (\<Sum>m<n. x ^ m / fact m) + (exp t / fact n) * x ^ n"
    using Maclaurin_exp_le [of x n] by blast
  have "0 \<le> (exp t / fact n) * x ^ n" using assms by simp
  with t show ?thesis by linarith
qed

lemma ln2_lower: "6931465 / 10000000 < ln (2::real)"
proof -
  have "exp (6931465 / 10000000 :: real) \<le>
      (\<Sum>m<9. (6931465 / 10000000) ^ m / fact m) + 3 * (6931465 / 10000000) ^ 9 / fact 9"
    by (rule exp_upper_Taylor) simp_all
  also have "\<dots> < 2"
    by (simp add: eval_nat_numeral sum.lessThan_Suc fact_numeral)
  finally have "exp (6931465 / 10000000 :: real) < exp (ln 2)" by simp
  then show ?thesis by (simp only: exp_less_cancel_iff)
qed

lemma ln2_upper: "ln (2::real) < 6931475 / 10000000"
proof -
  have "(2::real) < (\<Sum>m<9. (6931475 / 10000000) ^ m / fact m)"
    by (simp add: eval_nat_numeral sum.lessThan_Suc fact_numeral)
  also have "\<dots> \<le> exp (6931475 / 10000000)"
    by (rule exp_lower_Taylor) simp
  finally have "exp (ln 2) < exp (6931475 / 10000000 :: real)" by simp
  then show ?thesis by (simp only: exp_less_cancel_iff)
qed

lemma whole_lgamma_3: "fn_lgamma whole_fns 3 = ln 2"
  by (simp add: whole_fns_def fact_numeral eval_nat_numeral)

lemma erlang_tail_deriv:
  "((\<lambda>u::real. exp (- u) * (\<Sum>k<Suc n. u ^ k / fact k)) has_field_derivative
      - (exp (- u) * u ^ n / fact n)) (at u)"
proof (induction n)
  case 0
  show ?case
    by (auto intro!: derivative_eq_intros)
next
  case (Suc n)
  have "((\<lambda>u::real. u ^ Suc n / fact (Suc n)) has_field_derivative
      (real (Suc n) * u ^ (Suc n - Suc 0)) / fact (Suc n)) (at u)"
    by (rule DERIV_cdivide [OF DERIV_pow])
  moreover have "(real (Suc n) * u ^ (Suc n - Suc 0)) / fact (Suc n) = u ^ n / fact n"
    by (simp del: of_nat_Suc)
  ultimately have p: "((\<lambda>u::real. u ^ Suc n / fact (Suc n)) has_field_derivative u ^ n / fact n) (at u)"
    by simp
  have e: "((\<lambda>u::real. exp (- u)) has_field_derivative - exp (- u)) (at u)"
    by (auto intro!: derivative_eq_intros)
  have "((\<lambda>u::real. exp (- u) * (\<Sum>k<Suc n. u ^ k / fact k) + exp (- u) * (u ^ Suc n / fact (Suc n)))
      has_field_derivative
        - (exp (- u) * u ^ n / fact n)
        + (exp (- u) * (u ^ n / fact n) + - exp (- u) * (u ^ Suc n / fact (Suc n))))
      (at u)"
    by (rule DERIV_add [OF Suc.IH DERIV_mult' [OF e p]])
  moreover have "- (exp (- u) * u ^ n / fact n)
        + (exp (- u) * (u ^ n / fact n) + - exp (- u) * (u ^ Suc n / fact (Suc n)))
      = - (exp (- u) * u ^ Suc n / fact (Suc n))"
    by simp
  moreover have "(\<lambda>u::real. exp (- u) * (\<Sum>k<Suc n. u ^ k / fact k) + exp (- u) * (u ^ Suc n / fact (Suc n)))
      = (\<lambda>u. exp (- u) * (\<Sum>k<Suc (Suc n). u ^ k / fact k))"
    by (simp add: fun_eq_iff algebra_simps)
  ultimately show ?case
    by simp
qed

lemma erlang_tail_antimono:
  fixes u v :: real
  assumes "0 \<le> u" "u \<le> v"
  shows "exp (- v) * (\<Sum>k<n. v ^ k / fact k) \<le> exp (- u) * (\<Sum>k<n. u ^ k / fact k)"
proof (cases n)
  case 0
  then show ?thesis by simp
next
  case (Suc m)
  have "\<exists>y. ((\<lambda>u::real. exp (- u) * (\<Sum>k<Suc m. u ^ k / fact k)) has_field_derivative y) (at w) \<and> y \<le> 0"
    if "u \<le> w" for w
  proof -
    from that assms(1) have "0 \<le> w" by simp
    then have "- (exp (- w) * w ^ m / fact m) \<le> 0" by simp
    with erlang_tail_deriv [of m w] show ?thesis by blast
  qed
  with assms(2) have "exp (- v) * (\<Sum>k<Suc m. v ^ k / fact k) \<le> exp (- u) * (\<Sum>k<Suc m. u ^ k / fact k)"
    by (intro DERIV_nonpos_imp_nonincreasing [of u v "\<lambda>u. exp (- u) * (\<Sum>k<Suc m. u ^ k / fact k)"]) auto
  with Suc show ?thesis by simp
qed

lemma erlang_tail_bounds:
  fixes u :: real
  assumes "0 \<le> u"
  shows "0 \<le> exp (- u) * (\<Sum>k<n. u ^ k / fact k)" and "exp (- u) * (\<Sum>k<n. u ^ k / fact k) \<le> 1"
proof -
  from assms have s: "0 \<le> (\<Sum>k<n. u ^ k / fact k)"
    by (intro sum_nonneg) simp
  then show "0 \<le> exp (- u) * (\<Sum>k<n. u ^ k / fact k)"
    by simp
  have "exp (- u) * (\<Sum>k<n. u ^ k / fact k) \<le> exp (- u) * exp u"
    by (intro mult_left_mono exp_lower_Taylor assms) simp
  then show "exp (- u) * (\<Sum>k<n. u ^ k / fact k) \<le> 1"
    by (simp add: exp_minus)
qed

lemma cdf_kernel_whole_fns: "cdf_kernel whole_fns p"
  unfolding cdf_kernel_def
proof (intro conjI allI impI)
  fix u :: real
  assume "0 \<le> u"
  from erlang_tail_bounds [OF this, of "nat \<lfloor>p\<rfloor>"]
  show "0 \<le> fn_igamma whole_fns p u" "fn_igamma whole_fns p u \<le> 1"
    by (simp_all add: whole_fns_def)
next
  fix u v :: real
  assume uv: "0 \<le> u \<and> u \<le> v"
  then have "0 \<le> v" by simp
  from erlang_tail_bounds [OF this, of "nat \<lfloor>p\<rfloor>"] erlang_tail_antimono [of u v "nat \<lfloor>p\<rfloor>"] uv
  show "fn_igamma whole_fns p u \<le> fn_igamma whole_fns p v"
    by (simp add: whole_fns_def)
qed

lemma cdf_kernel_mono_bounds:
  assumes k: "cdf_kernel fns p" and "0 < q" "0 < u" "u \<le> v"
  shows "fn_igamma fns p (q * u) \<le> fn_igamma fns p (q * v)"
    and "0 \<le> fn_igamma fns p (q * u)" and "fn_igamma fns p (q * u) \<le> 1"
    and "0 \<le> fn_igamma fns p (q * v)" and "fn_igamma fns p (q * v) \<le> 1"
proof -
  from assms(2-) have "0 \<le> q * u" "q * u \<le> q * v" "0 \<le> q * v"
    by simp_all
  with k show "fn_igamma fns p (q * u) \<le> fn_igamma fns p (q * v)"
    and "0 \<le> fn_igamma fns p (q * u)" and "fn_igamma fns p (q * u) \<le> 1"
    and "0 \<le> fn_igamma fns p (q * v)" and "fn_igamma fns p (q * v) \<le> 1"
    unfolding cdf_kernel_def by blast+
qed

section \<open>Facts about the methods\<close>

lemma Gamma_init_eq: "Gamma_init a b n =
  (if dtype a \<noteq> dtype b \<or> \<not> is_floating (dtype a) then Inl TypeMismatchError
   else if \<not> broadcastable (vals a) (vals b) then Inl ShapeError
   else Inr \<lparr>self_alpha = a, self_beta = b, self_name = n,
        self_mean = \<lparr>dtype = dtype a, scalar = (scalar a \<and> scalar b),
                     vals = bmap2 (\<lambda>u v. u / v) (vals a) (vals b), deps = deps a @ deps b\<rparr>,
        self_batch_shape = (if scalar a \<and> scalar b then [] else [blen (length (vals a)) (length (vals b))]),
        self_variance = \<lparr>dtype = dtype a, scalar = (scalar a \<and> scalar b),
                     vals = bmap2 (\<lambda>u v. u / v) (vals a) (map (\<lambda>u. u * u) (vals b)), deps = deps a @ deps b\<rparr>,
        self_event_shape = []\<rparr>)"
  by (auto simp: Gamma_init_def convert_to_tensor_def assert_same_float_dtype_def Let_def
      t_truediv_def math_square_def binary_op_Inr get_shape_def broadcastable_def)

lemma Gamma_init_InrD:
  assumes "Gamma_init a b n = Inr g"
  shows "self_alpha g = a" and "self_beta g = b" and "self_name g = n"
    and "dtype a = dtype b" and "is_floating (dtype a)" and "broadcastable (vals a) (vals b)"
    and "self_mean g = \<lparr>dtype = dtype a, scalar = (scalar a \<and> scalar b),
           vals = bmap2 (\<lambda>u v. u / v) (vals a) (vals b), deps = deps a @ deps b\<rparr>"
    and "self_variance g = \<lparr>dtype = dtype a, scalar = (scalar a \<and> scalar b),
           vals = bmap2 (\<lambda>u v. u / v) (vals a) (map (\<lambda>u. u * u) (vals b)), deps = deps a @ deps b\<rparr>"
    and "self_batch_shape g =
           (if scalar a \<and> scalar b then [] else [blen (length (vals a)) (length (vals b))])"
    and "self_event_shape g = []"
  using assms by (auto simp: Gamma_init_eq split: if_splits)

lemma Gamma_init_3_2:
  "Gamma_init (constant_op Float32 3) (constant_op Float32 2) ''Gamma'' = Inr gamma_3_2"
  by (simp add: Gamma_init_eq gamma_3_2_def constant_op_def broadcastable_def bmap2_def blen_def)

lemmas method_defs = log_pdf_def log_cdf_def cdf_def pdf_def entropy_def Let_def convert_to_tensor_def
  with_dependencies_def assert_positive_def assert_same_float_dtype_def gamma_dtype_def
  t_sub_def t_add_def t_mul_def t_truediv_def math_log_def math_lgamma_def math_digamma_def
  math_igamma_def math_exp_def math_square_def

lemmas concrete_defs = constant_op_def vector_def broadcastable_def bmap2_def blen_def bidx_def
  evaluate_def run_def positive_def runs_def

lemma mean_variance_general:
  assumes "Gamma_init a b n = Inr g" "runs a" "runs b"
  shows "\<exists>m v. run (mean g) = Inr m \<and> run (variance g) = Inr v
     \<and> length m = blen (length (vals a)) (length (vals b)) \<and> length v = length m
     \<and> (\<forall>i<length m. m ! i = bidx (vals a) i / bidx (vals b) i
                      \<and> v ! i = bidx (vals a) i / (bidx (vals b) i)\<^sup>2)"
  using assms(2,3) Gamma_init_InrD(6) [OF assms(1)]
  by (simp add: mean_def variance_def Gamma_init_InrD(7,8) [OF assms(1)] run_def runs_def)
     (auto simp: broadcastable_def blen_def bmap2_nth bidx_map inb_def power2_eq_square split: if_splits)

lemma log_pdf_general:
  assumes "Gamma_init a b n = Inr g"
    and "dtype x = dtype a"
    and "broadcastable (vals x) (vals a)" "broadcastable (vals x) (vals b)"
    and "positive x"
    and "runs a" "runs b" "runs x"
  shows "\<exists>r. evaluate (log_pdf fns g x) = Inr r
     \<and> length r = blen (length (vals a)) (blen (length (vals b)) (length (vals x)))
     \<and> (\<forall>i<length r. r ! i =
           bidx (vals a) i * fn_log fns (bidx (vals b) i)
           + (bidx (vals a) i - 1) * fn_log fns (bidx (vals x) i)
           - bidx (vals b) i * bidx (vals x) i
           - fn_lgamma fns (bidx (vals a) i))"
  using assms(2-) Gamma_init_InrD(4-6) [OF assms(1)]
  by (simp add: method_defs Gamma_init_InrD(1,2) [OF assms(1)] constant_op_def binary_op_Inr
        evaluate_def run_def runs_def positive_def)
     (auto simp: broadcastable_def blen_def bmap2_nth bidx_bmap2 bidx_map inb_def split: if_splits)

lemma log_pdf_3_2_1:
  "evaluate (log_pdf fns gamma_3_2 (constant_op Float32 1)) =
     Inr [3 * fn_log fns 2 + (3 - 1) * fn_log fns 1 - 2 * 1 - fn_lgamma fns 3]"
  by (simp add: gamma_3_2_def method_defs binary_op_Inr concrete_defs)

lemma entropy_general:
  assumes "Gamma_init a b n = Inr g" and "runs a" "runs b"
  shows "\<exists>r. evaluate (entropy fns g) = Inr r
     \<and> length r = blen (length (vals a)) (length (vals b))
     \<and> (\<forall>i<length r. r ! i =
           bidx (vals a) i - fn_log fns (bidx (vals b) i) + fn_lgamma fns (bidx (vals a) i)
           + (1 - bidx (vals a) i) * fn_digamma fns (bidx (vals a) i))"
  using assms(2-) Gamma_init_InrD(4-6) [OF assms(1)]
  by (simp add: method_defs Gamma_init_InrD(1,2) [OF assms(1)] constant_op_def binary_op_Inr
        evaluate_def run_def runs_def)
     (auto simp: broadcastable_def blen_def bmap2_nth bidx_bmap2 bidx_map inb_def split: if_splits)

lemma entropy_3_2:
  "evaluate (entropy fns gamma_3_2) =
     Inr [3 - fn_log fns 2 + fn_lgamma fns 3 + (1 - 3) * fn_digamma fns 3]"
  by (simp add: gamma_3_2_def method_defs binary_op_Inr concrete_defs)

lemma log_cdf_general:
  assumes "Gamma_init a b n = Inr g"
    and "dtype x = dtype a"
    and "broadcastable (vals x) (vals a)" "broadcastable (vals x) (vals b)"
    and "positive x"
    and "runs a" "runs b" "runs x"
  shows "\<exists>r. evaluate (log_cdf fns g x) = Inr r
     \<and> length r = blen (length (vals a)) (blen (length (vals b)) (length (vals x)))
     \<and> (\<forall>i<length r. r ! i =
           fn_log fns (fn_igamma fns (bidx (vals a) i) (bidx (vals b) i * bidx (vals x) i)))"
  using assms(2-) Gamma_init_InrD(4-6) [OF assms(1)]
  by (simp add: method_defs Gamma_init_InrD(1,2) [OF assms(1)] constant_op_def binary_op_Inr
        evaluate_def run_def runs_def positive_def)
     (auto simp: broadcastable_def blen_def bmap2_nth bidx_bmap2 bidx_map inb_def split: if_splits)

lemma log_cdf_fails_as_log_pdf:
  "evaluate (log_cdf fns g x) = Inl e \<longleftrightarrow> evaluate (log_pdf fns g x) = Inl e"
  by (simp add: method_defs constant_op_def binary_op_Inr evaluate_def run_def)
     (auto simp: broadcastable_def blen_def split: if_splits)

lemma log_cdf_nonpositive:
  assumes "Gamma_init a b n = Inr g"
    and "dtype x = dtype a"
    and "broadcastable (vals x) (vals a)" "broadcastable (vals x) (vals b)"
    and "\<not> positive x"
  shows "evaluate (log_cdf fns g x) = Inl DomainError"
  using assms(2-) Gamma_init_InrD(4-6) [OF assms(1)]
  by (simp add: method_defs Gamma_init_InrD(1,2) [OF assms(1)] constant_op_def binary_op_Inr
        evaluate_def run_def runs_def positive_def)
     (auto simp: broadcastable_def blen_def split: if_splits)

lemma log_cdf_3_2_1:
  "evaluate (log_cdf fns gamma_3_2 (constant_op Float32 1)) = Inr [fn_log fns (fn_igamma fns 3 (2 * 1))]"
  by (simp add: gamma_3_2_def method_defs binary_op_Inr concrete_defs)

lemma cdf_general:
  assumes "Gamma_init a b n = Inr g"
    and "dtype x = dtype a"
    and "broadcastable (vals x) (vals a)" "broadcastable (vals x) (vals b)"
    and "runs a" "runs b" "runs x"
  shows "\<exists>r. evaluate (cdf fns g x) = Inr r
     \<and> length r = blen (length (vals a)) (blen (length (vals b)) (length (vals x)))
     \<and> (\<forall>i<length r. r ! i =
           fn_igamma fns (bidx (vals a) i) (bidx (vals b) i * bidx (vals x) i))"
  using assms(2-) Gamma_init_InrD(4-6) [OF assms(1)]
  by (simp add: method_defs Gamma_init_InrD(1,2) [OF assms(1)] constant_op_def binary_op_Inr
        evaluate_def run_def runs_def positive_def)
     (auto simp: broadcastable_def blen_def bmap2_nth bidx_bmap2 bidx_map inb_def split: if_splits)

lemma cdf_3_2:
  "evaluate (cdf fns gamma_3_2 (constant_op Float32 v)) = Inr [fn_igamma fns 3 (2 * v)]"
  by (simp add: gamma_3_2_def method_defs binary_op_Inr concrete_defs)

lemma cdf_monotone_general:
  assumes init: "Gamma_init a b n = Inr g"
    and pb: "positive b" and ker: "list_all (cdf_kernel fns) (vals a)"
    and dt: "dtype x1 = dtype a" "dtype x2 = dtype a"
    and bc: "broadcastable (vals x1) (vals a)" "broadcastable (vals x1) (vals b)"
    and px: "positive x1" "positive x2" and le: "list_all2 (\<le>) (vals x1) (vals x2)"
    and rn: "runs a" "runs b" "runs x1" "runs x2"
  shows "\<exists>r1 r2. evaluate (cdf fns g x1) = Inr r1 \<and> evaluate (cdf fns g x2) = Inr r2
     \<and> length r1 = blen (length (vals a)) (blen (length (vals b)) (length (vals x1)))
     \<and> length r2 = length r1
     \<and> (\<forall>i<length r1. r1 ! i \<le> r2 ! i \<and> 0 \<le> r1 ! i \<and> r1 ! i \<le> 1 \<and> 0 \<le> r2 ! i \<and> r2 ! i \<le> 1)"
proof -
  from le have len: "length (vals x2) = length (vals x1)"
    by (simp add: list_all2_lengthD)
  with bc have bc2: "broadcastable (vals x2) (vals a)" "broadcastable (vals x2) (vals b)"
    by (simp_all add: broadcastable_def)
  obtain r1 where r1: "evaluate (cdf fns g x1) = Inr r1"
    "length r1 = blen (length (vals a)) (blen (length (vals b)) (length (vals x1)))"
    "\<forall>i<length r1. r1 ! i = fn_igamma fns (bidx (vals a) i) (bidx (vals b) i * bidx (vals x1) i)"
    using cdf_general [OF init dt(1) bc rn(1,2,3), of fns] by blast
  obtain r2 where r2: "evaluate (cdf fns g x2) = Inr r2"
    "length r2 = blen (length (vals a)) (blen (length (vals b)) (length (vals x2)))"
    "\<forall>i<length r2. r2 ! i = fn_igamma fns (bidx (vals a) i) (bidx (vals b) i * bidx (vals x2) i)"
    using cdf_general [OF init dt(2) bc2 rn(1,2,4), of fns] by blast
  from r1(2) r2(2) len have same: "length r2 = length r1"
    by simp
  have "r1 ! i \<le> r2 ! i \<and> 0 \<le> r1 ! i \<and> r1 ! i \<le> 1 \<and> 0 \<le> r2 ! i \<and> r2 ! i \<le> 1"
    if i: "i < length r1" for i
  proof -
    from i r1(2) have "i < blen (length (vals a)) (blen (length (vals b)) (length (vals x1)))"
      by simp
    from inb_of_index [OF bc Gamma_init_InrD(6) [OF init] this]
    have inb: "inb (vals a) i" "inb (vals b) i" "inb (vals x1) i" .
    from bidx_list_all [OF ker inb(1)] have k: "cdf_kernel fns (bidx (vals a) i)" .
    from bidx_list_all [OF pb [unfolded positive_def] inb(2)] have q: "0 < bidx (vals b) i" .
    from bidx_list_all [OF px(1) [unfolded positive_def] inb(3)] have u: "0 < bidx (vals x1) i" .
    from bidx_list_all2 [OF le inb(3)] have uv: "bidx (vals x1) i \<le> bidx (vals x2) i" .
    from cdf_kernel_mono_bounds [OF k q u uv] r1(3) r2(3) i same show ?thesis
      by simp
  qed
  with r1(1,2) r2(1) same show ?thesis
    by blast
qed

section \<open>Positivity checks\<close>

text \<open>
  Claim C1 says that \<open>cdf\<close> raises \<open>DomainError\<close> on an \<open>x\<close> with an element that is zero
  or negative. \<open>cdf\<close> creates no assertion on \<open>x\<close>: for \<^verbatim>\<open>Gamma(alpha=3.0, beta=2.0)\<close> and
  \<open>x = -1.0\<close> it evaluates to the value of the incomplete gamma function at \<open>(3, -2)\<close>,
  where \<open>log_cdf\<close>, which differs from it by the assertion and the logarithm, raises
  \<open>DomainError\<close>.
\<close>

theorem cdf_nonpositive_x_not_rejected:
  "Gamma_init (constant_op Float32 3) (constant_op Float32 2) ''Gamma'' = Inr gamma_3_2
   \<and> evaluate (cdf fns gamma_3_2 (constant_op Float32 (- 1))) = Inr [fn_igamma fns 3 (- 2)]
   \<and> evaluate (log_cdf fns gamma_3_2 (constant_op Float32 (- 1))) = Inl DomainError"
  by (simp add: Gamma_init_3_2)
     (simp add: gamma_3_2_def method_defs binary_op_Inr concrete_defs)

text \<open>
  Claim C2 says that construction raises \<open>DomainError\<close> when an element of \<open>alpha\<close> or
  \<open>beta\<close> is zero or negative, so that no object with such a parameter can be observed.
  \<^verbatim>\<open>__init__\<close> creates the two positivity assertions, but no tensor carries them:
  \<^verbatim>\<open>Gamma(alpha=-1.0, beta=2.0)\<close> is constructed, and its parameters, mean, variance,
  entropy and density all evaluate, none with \<open>DomainError\<close>. The same assertion, attached
  to \<open>x\<close> by \<open>log_pdf\<close>, does reject \<open>x = -1.0\<close> on that object.
\<close>

theorem Gamma_init_nonpositive_not_rejected:
  "Gamma_init (constant_op Float32 (- 1)) (constant_op Float32 2) ''Gamma'' = Inr gamma_m1_2
   \<and> run (alpha gamma_m1_2) = Inr [- 1]
   \<and> run (beta gamma_m1_2) = Inr [2]
   \<and> run (mean gamma_m1_2) = Inr [- 1 / 2]
   \<and> run (variance gamma_m1_2) = Inr [- 1 / 4]
   \<and> evaluate (entropy fns gamma_m1_2)
        = Inr [- 1 - fn_log fns 2 + fn_lgamma fns (- 1) + (1 - (- 1)) * fn_digamma fns (- 1)]
   \<and> evaluate (log_pdf fns gamma_m1_2 (constant_op Float32 1))
        = Inr [- 1 * fn_log fns 2 + (- 1 - 1) * fn_log fns 1 - 2 * 1 - fn_lgamma fns (- 1)]
   \<and> evaluate (log_pdf fns gamma_m1_2 (constant_op Float32 (- 1))) = Inl DomainError"
proof -
  have "Gamma_init (constant_op Float32 (- 1)) (constant_op Float32 2) ''Gamma'' = Inr gamma_m1_2"
    by (simp add: Gamma_init_eq gamma_m1_2_def constant_op_def broadcastable_def bmap2_def blen_def)
  moreover have "run (alpha gamma_m1_2) = Inr [- 1]" "run (beta gamma_m1_2) = Inr [2]"
    "run (mean gamma_m1_2) = Inr [- 1 / 2]" "run (variance gamma_m1_2) = Inr [- 1 / 4]"
    by (simp_all add: alpha_def beta_def mean_def variance_def gamma_m1_2_def constant_op_def run_def)
  moreover have "evaluate (entropy fns gamma_m1_2)
        = Inr [- 1 - fn_log fns 2 + fn_lgamma fns (- 1) + (1 - (- 1)) * fn_digamma fns (- 1)]"
    by (simp add: gamma_m1_2_def method_defs binary_op_Inr concrete_defs)
  moreover have "evaluate (log_pdf fns gamma_m1_2 (constant_op Float32 1))
        = Inr [- 1 * fn_log fns 2 + (- 1 - 1) * fn_log fns 1 - 2 * 1 - fn_lgamma fns (- 1)]"
    by (simp add: gamma_m1_2_def method_defs binary_op_Inr concrete_defs)
  moreover have "evaluate (log_pdf fns gamma_m1_2 (constant_op Float32 (- 1))) = Inl DomainError"
    by (simp add: gamma_m1_2_def method_defs binary_op_Inr concrete_defs)
  ultimately show ?thesis
    by simp
qed

section \<open>Mean and variance\<close>

text \<open>
  Claim C6. The constructor stores the tensors \<open>alpha / beta\<close> and \<open>alpha / square(beta)\<close>
  in the object, and the accessors \<open>mean\<close> and \<open>variance\<close> return what is stored: for
  parameters with positive elements they evaluate, at every position, to the element of
  \<open>alpha\<close> divided by the element of \<open>beta\<close>, and by its square. For \<open>alpha = 3.0\<close>,
  \<open>beta = 2.0\<close> they are \<open>1.5\<close> and \<open>0.75\<close>.
\<close>

theorem mean_variance_at_construction:
  "(Gamma_init a b n = Inr g \<and> positive a \<and> positive b \<and> runs a \<and> runs b \<longrightarrow>
      (\<exists>m v. run (mean g) = Inr m \<and> run (variance g) = Inr v
         \<and> length m = blen (length (vals a)) (length (vals b)) \<and> length v = length m
         \<and> (\<forall>i<length m. m ! i = bidx (vals a) i / bidx (vals b) i
                          \<and> v ! i = bidx (vals a) i / (bidx (vals b) i)\<^sup>2)))
   \<and> Gamma_init (constant_op Float32 3) (constant_op Float32 2) ''Gamma'' = Inr gamma_3_2
   \<and> run (mean gamma_3_2) = Inr [3 / 2]
   \<and> run (variance gamma_3_2) = Inr [3 / 4]"
proof -
  have "run (mean gamma_3_2) = Inr [3 / 2]" "run (variance gamma_3_2) = Inr [3 / 4]"
    by (simp_all add: mean_def variance_def gamma_3_2_def constant_op_def run_def)
  with mean_variance_general [of a b n g] Gamma_init_3_2 show ?thesis
    by blast
qed

theorem mean_variance_at_construction_witness:
  "\<exists>g. Gamma_init (vector Float32 [3, 4]) (vector Float32 [2, 3]) ''Gamma'' = Inr g
      \<and> positive (vector Float32 [3, 4]) \<and> positive (vector Float32 [2, 3])
      \<and> runs (vector Float32 [3, 4]) \<and> runs (vector Float32 [2, 3])
      \<and> run (mean g) = Inr [3 / 2, 4 / 3] \<and> run (variance g) = Inr [3 / 4, 4 / 9]"
proof -
  let ?a = "vector Float32 [3, 4]" and ?b = "vector Float32 [2, 3]"
  obtain g where g: "Gamma_init ?a ?b ''Gamma'' = Inr g"
    by (simp add: Gamma_init_eq vector_def broadcastable_def)
  have h: "positive ?a" "positive ?b" "runs ?a" "runs ?b"
    by (simp_all add: positive_def runs_def vector_def)
  from mean_variance_at_construction [of ?a ?b "''Gamma''" g] g h
  obtain m v where mv: "run (mean g) = Inr m" "run (variance g) = Inr v"
    "length m = blen (length (vals ?a)) (length (vals ?b))" "length v = length m"
    "\<forall>i<length m. m ! i = bidx (vals ?a) i / bidx (vals ?b) i
                  \<and> v ! i = bidx (vals ?a) i / (bidx (vals ?b) i)\<^sup>2"
    by blast
  from mv(3,4) have len: "length m = 2" "length v = 2"
    by (simp_all add: vector_def blen_def)
  from mv(5) len have "m ! 0 = 3 / 2" "m ! 1 = 4 / 3" "v ! 0 = 3 / 4" "v ! 1 = 4 / 9"
    by (simp_all add: vector_def bidx_def)
  with len have "m = [3 / 2, 4 / 3]" "v = [3 / 4, 4 / 9]"
    by (auto simp: list_eq_iff_nth_eq nth_Cons' less_Suc_eq eval_nat_numeral)
  with g h mv(1,2) show ?thesis
    by blast
qed

section \<open>The density\<close>

text \<open>
  Claim C4. \<open>pdf\<close> is computed by calling \<open>log_pdf\<close>: it fails exactly when \<open>log_pdf\<close>
  fails, with the same error, and otherwise evaluates to the exponential of each element
  of what \<open>log_pdf\<close> evaluates to.
\<close>

theorem pdf_is_exp_of_log_pdf:
  "evaluate (pdf fns g x) =
     (case evaluate (log_pdf fns g x) of Inl e \<Rightarrow> Inl e | Inr r \<Rightarrow> Inr (map (fn_exp fns) r))"
  by (cases "log_pdf fns g x") (simp_all add: pdf_def math_exp_def evaluate_def run_def)

theorem pdf_is_exp_of_log_pdf_witness:
  "evaluate (pdf whole_fns gamma_3_2 (constant_op Float32 1)) = Inr [exp (3 * ln 2 - 2 - ln 2)]"
  using pdf_is_exp_of_log_pdf [of whole_fns gamma_3_2 "constant_op Float32 1"]
  by (simp add: log_pdf_3_2_1 whole_lgamma_3) (simp add: whole_fns_def)

text \<open>
  Claim C3 gives the value of \<open>log_pdf\<close> in the scenario \<open>alpha = 3.0\<close>, \<open>beta = 2.0\<close>,
  \<open>x = 1.0\<close> as \<open>3 * ln 2 - 2 - lgamma 3\<close>, about \<open>0.386294\<close>. With \<open>lgamma 3 = ln 2\<close> the
  value is \<open>2 * ln 2 - 2\<close>, a negative number, and not within \<open>1 / 2\<close> of \<open>0.386294\<close>.
\<close>

theorem log_pdf_scenario_counterexample:
  "Gamma_init (constant_op Float32 3) (constant_op Float32 2) ''Gamma'' = Inr gamma_3_2
   \<and> evaluate (log_pdf whole_fns gamma_3_2 (constant_op Float32 1)) = Inr [3 * ln 2 - 2 - ln 2]
   \<and> \<not> \<bar>(3 * ln 2 - 2 - ln 2) - 386294 / 1000000\<bar> < (1 / 2 :: real)"
proof -
  have "evaluate (log_pdf whole_fns gamma_3_2 (constant_op Float32 1)) = Inr [3 * ln 2 - 2 - ln 2]"
    by (simp add: log_pdf_3_2_1 whole_lgamma_3) (simp add: whole_fns_def)
  moreover have "\<not> \<bar>(3 * ln 2 - 2 - ln 2) - 386294 / 1000000\<bar> < (1 / 2 :: real)"
    using ln2_upper by linarith
  ultimately show ?thesis
    using Gamma_init_3_2 by simp
qed

text \<open>
  Claim C3, amended. For a distribution with positive parameters and an \<open>x\<close> of its
  dtype, with positive elements and a shape that broadcasts against the parameters,
  \<open>log_pdf\<close> evaluates at every position to
  \<open>alpha * log(beta) + (alpha - 1) * log(x) - beta * x - lgamma(alpha)\<close> of the elements
  at that position. For \<open>alpha = 3.0\<close>, \<open>beta = 2.0\<close>, \<open>x = 1.0\<close> this is
  \<open>3 * ln 2 - 2 - lgamma 3 = 2 * ln 2 - 2\<close>, which is \<open>-0.613706\<close> to six decimal places.
\<close>

theorem log_pdf_elementwise:
  "(Gamma_init a b n = Inr g \<and> positive a \<and> positive b
      \<and> dtype x = dtype a \<and> broadcastable (vals x) (vals a) \<and> broadcastable (vals x) (vals b)
      \<and> positive x \<and> runs a \<and> runs b \<and> runs x \<longrightarrow>
      (\<exists>r. evaluate (log_pdf fns g x) = Inr r
         \<and> length r = blen (length (vals a)) (blen (length (vals b)) (length (vals x)))
         \<and> (\<forall>i<length r. r ! i =
               bidx (vals a) i * fn_log fns (bidx (vals b) i)
               + (bidx (vals a) i - 1) * fn_log fns (bidx (vals x) i)
               - bidx (vals b) i * bidx (vals x) i
               - fn_lgamma fns (bidx (vals a) i))))
   \<and> evaluate (log_pdf whole_fns gamma_3_2 (constant_op Float32 1))
       = Inr [3 * ln 2 - 2 - fn_lgamma whole_fns 3]
   \<and> fn_lgamma whole_fns 3 = ln 2
   \<and> \<bar>(3 * ln 2 - 2 - ln 2) - (- 613706 / 1000000)\<bar> < (1 / 1000000 :: real)"
proof -
  have "evaluate (log_pdf whole_fns gamma_3_2 (constant_op Float32 1))
       = Inr [3 * ln 2 - 2 - fn_lgamma whole_fns 3]"
    by (simp add: log_pdf_3_2_1) (simp add: whole_fns_def)
  moreover have "\<bar>(3 * ln 2 - 2 - ln 2) - (- 613706 / 1000000)\<bar> < (1 / 1000000 :: real)"
    using ln2_upper ln2_lower by linarith
  ultimately show ?thesis
    using log_pdf_general [of a b n g x fns] whole_lgamma_3 by blast
qed

theorem log_pdf_elementwise_witness:
  "\<exists>g. Gamma_init (vector Float32 [3, 4]) (vector Float32 [2, 3]) ''Gamma'' = Inr g
      \<and> positive (vector Float32 [3, 4]) \<and> positive (vector Float32 [2, 3])
      \<and> dtype (constant_op Float32 1) = dtype (vector Float32 [3, 4])
      \<and> broadcastable (vals (constant_op Float32 1)) (vals (vector Float32 [3, 4]))
      \<and> broadcastable (vals (constant_op Float32 1)) (vals (vector Float32 [2, 3]))
      \<and> positive (constant_op Float32 1)
      \<and> runs (vector Float32 [3, 4]) \<and> runs (vector Float32 [2, 3]) \<and> runs (constant_op Float32 1)
      \<and> evaluate (log_pdf whole_fns g (constant_op Float32 1))
          = Inr [3 * ln 2 + 2 * ln 1 - 2 - ln 2, 4 * ln 3 + 3 * ln 1 - 3 - ln 6]"
proof -
  let ?a = "vector Float32 [3, 4]" and ?b = "vector Float32 [2, 3]" and ?x = "constant_op Float32 1"
  obtain g where g: "Gamma_init ?a ?b ''Gamma'' = Inr g"
    by (simp add: Gamma_init_eq vector_def broadcastable_def)
  have h: "positive ?a" "positive ?b" "dtype ?x = dtype ?a" "broadcastable (vals ?x) (vals ?a)"
    "broadcastable (vals ?x) (vals ?b)" "positive ?x" "runs ?a" "runs ?b" "runs ?x"
    by (simp_all add: positive_def runs_def vector_def constant_op_def broadcastable_def)
  from log_pdf_elementwise [of ?a ?b "''Gamma''" g ?x whole_fns] g h
  obtain r where r: "evaluate (log_pdf whole_fns g ?x) = Inr r"
    "length r = blen (length (vals ?a)) (blen (length (vals ?b)) (length (vals ?x)))"
    "\<forall>i<length r. r ! i =
        bidx (vals ?a) i * fn_log whole_fns (bidx (vals ?b) i)
        + (bidx (vals ?a) i - 1) * fn_log whole_fns (bidx (vals ?x) i)
        - bidx (vals ?b) i * bidx (vals ?x) i
        - fn_lgamma whole_fns (bidx (vals ?a) i)"
    by blast
  from r(2) have len: "length r = 2"
    by (simp add: vector_def constant_op_def blen_def)
  from r(3) len have "r ! 0 = 3 * ln 2 + 2 * ln 1 - 2 - ln 2" "r ! 1 = 4 * ln 3 + 3 * ln 1 - 3 - ln 6"
    by (simp_all add: vector_def constant_op_def bidx_def whole_fns_def fact_numeral eval_nat_numeral)
  with list_of_length_2 [OF len] have "r = [3 * ln 2 + 2 * ln 1 - 2 - ln 2, 4 * ln 3 + 3 * ln 1 - 3 - ln 6]"
    by simp
  with g h r(1) show ?thesis
    by blast
qed

section \<open>The cumulative distribution\<close>

text \<open>
  What holds of \<open>log_cdf\<close> over the reals. For a distribution with positive parameters
  and an \<open>x\<close> of its dtype, with positive elements and a shape that broadcasts against
  the parameters, \<open>log_cdf\<close> evaluates at every position to the logarithm of the
  incomplete gamma function at \<open>(alpha, beta * x)\<close>, and nothing stands between the two
  functions. \<open>log_cdf\<close> fails exactly when \<open>log_pdf\<close> fails, with the same error:
  \<open>TypeMismatchError\<close> on an \<open>x\<close> of another dtype, \<open>DomainError\<close> on an \<open>x\<close> with an
  element that is not positive. What the logarithm of the runtime returns where the
  incomplete gamma function underflows to \<open>0\<close> in machine arithmetic is not a real number
  and is not described here.
\<close>

lemma log_cdf_formula_and_failures:
  "(Gamma_init a b n = Inr g \<and> positive a \<and> positive b
      \<and> dtype x = dtype a \<and> broadcastable (vals x) (vals a) \<and> broadcastable (vals x) (vals b)
      \<and> positive x \<and> runs a \<and> runs b \<and> runs x \<longrightarrow>
      (\<exists>r. evaluate (log_cdf fns g x) = Inr r
         \<and> length r = blen (length (vals a)) (blen (length (vals b)) (length (vals x)))
         \<and> (\<forall>i<length r.
               r ! i = fn_log fns (fn_igamma fns (bidx (vals a) i) (bidx (vals b) i * bidx (vals x) i)))))
   \<and> (evaluate (log_cdf fns g x) = Inl e \<longleftrightarrow> evaluate (log_pdf fns g x) = Inl e)
   \<and> (Gamma_init a b n = Inr g \<and> dtype x \<noteq> dtype a \<longrightarrow>
        evaluate (log_cdf fns g x) = Inl TypeMismatchError)
   \<and> (Gamma_init a b n = Inr g \<and> dtype x = dtype a
        \<and> broadcastable (vals x) (vals a) \<and> broadcastable (vals x) (vals b) \<and> \<not> positive x \<longrightarrow>
        evaluate (log_cdf fns g x) = Inl DomainError)"
proof -
  have "evaluate (log_cdf fns g x) = Inl TypeMismatchError"
    if "Gamma_init a b n = Inr g" "dtype x \<noteq> dtype a"
    using that(2) Gamma_init_InrD(1) [OF that(1)]
    by (simp add: log_cdf_def Let_def convert_to_tensor_def with_dependencies_def
        assert_same_float_dtype_def gamma_dtype_def evaluate_def)
  then show ?thesis
    using log_cdf_general [of a b n g x fns] log_cdf_fails_as_log_pdf [of fns g x e]
      log_cdf_nonpositive [of a b n g x fns]
    by blast
qed

lemma log_cdf_scenario:
  "evaluate (log_cdf whole_fns gamma_3_2 (constant_op Float32 1)) = Inr [ln (1 - exp (- 2) * 5)]
   \<and> evaluate (log_cdf whole_fns gamma_3_2 (constant_op Float64 1)) = Inl TypeMismatchError
   \<and> evaluate (log_cdf whole_fns gamma_3_2 (constant_op Float32 (- 1))) = Inl DomainError"
proof -
  have "evaluate (log_cdf whole_fns gamma_3_2 (constant_op Float32 1)) = Inr [ln (1 - exp (- 2) * 5)]"
    by (simp add: log_cdf_3_2_1)
       (simp add: whole_fns_def eval_nat_numeral sum.lessThan_Suc fact_numeral)
  moreover have "evaluate (log_cdf whole_fns gamma_3_2 (constant_op Float64 1)) = Inl TypeMismatchError"
    "evaluate (log_cdf whole_fns gamma_3_2 (constant_op Float32 (- 1))) = Inl DomainError"
    by (simp_all add: gamma_3_2_def method_defs binary_op_Inr concrete_defs)
  ultimately show ?thesis
    by simp
qed

text \<open>
  Claim C8. Let the incomplete gamma function of the runtime be, at every shape in
  \<open>alpha\<close>, a CDF kernel as the spec describes it (values in \<open>[0, 1]\<close>, not decreasing).
  Then for a distribution with positive parameters and \<open>x1 \<le> x2\<close>, both with positive
  elements, of the dtype of the distribution and of one shape that broadcasts against the
  parameters, \<open>cdf\<close> evaluates on both, every value lies in \<open>[0, 1]\<close>, and at every
  position the value on \<open>x1\<close> is at most the value on \<open>x2\<close>.
\<close>

theorem cdf_monotone_and_bounded:
  "Gamma_init a b n = Inr g \<and> positive a \<and> positive b \<and> list_all (cdf_kernel fns) (vals a)
     \<and> dtype x1 = dtype a \<and> dtype x2 = dtype a
     \<and> broadcastable (vals x1) (vals a) \<and> broadcastable (vals x1) (vals b)
     \<and> positive x1 \<and> positive x2 \<and> list_all2 (\<le>) (vals x1) (vals x2)
     \<and> runs a \<and> runs b \<and> runs x1 \<and> runs x2 \<longrightarrow>
   (\<exists>r1 r2. evaluate (cdf fns g x1) = Inr r1 \<and> evaluate (cdf fns g x2) = Inr r2
      \<and> length r1 = blen (length (vals a)) (blen (length (vals b)) (length (vals x1)))
      \<and> length r2 = length r1
      \<and> (\<forall>i<length r1. r1 ! i \<le> r2 ! i
            \<and> 0 \<le> r1 ! i \<and> r1 ! i \<le> 1 \<and> 0 \<le> r2 ! i \<and> r2 ! i \<le> 1))"
  using cdf_monotone_general [of a b n g fns x1 x2] by blast

theorem cdf_monotone_and_bounded_witness:
  "Gamma_init (constant_op Float32 3) (constant_op Float32 2) ''Gamma'' = Inr gamma_3_2
   \<and> positive (constant_op Float32 3) \<and> positive (constant_op Float32 2)
   \<and> list_all (cdf_kernel whole_fns) (vals (constant_op Float32 3))
   \<and> dtype (constant_op Float32 1) = dtype (constant_op Float32 3)
   \<and> dtype (constant_op Float32 2) = dtype (constant_op Float32 3)
   \<and> broadcastable (vals (constant_op Float32 1)) (vals (constant_op Float32 3))
   \<and> broadcastable (vals (constant_op Float32 1)) (vals (constant_op Float32 2))
   \<and> positive (constant_op Float32 1)
   \<and> list_all2 (\<le>) (vals (constant_op Float32 1)) (vals (constant_op Float32 2))
   \<and> runs (constant_op Float32 3) \<and> runs (constant_op Float32 2) \<and> runs (constant_op Float32 1)
   \<and> evaluate (cdf whole_fns gamma_3_2 (constant_op Float32 1)) = Inr [1 - exp (- 2) * 5]
   \<and> evaluate (cdf whole_fns gamma_3_2 (constant_op Float32 2)) = Inr [1 - exp (- 4) * 13]
   \<and> 1 - exp (- 2) * 5 \<le> (1 - exp (- 4) * 13 :: real)
   \<and> 0 \<le> (1 - exp (- 2) * 5 :: real) \<and> 1 - exp (- 4) * 13 \<le> (1 :: real)"
proof -
  let ?a = "constant_op Float32 3" and ?b = "constant_op Float32 2"
  let ?x1 = "constant_op Float32 1" and ?x2 = "constant_op Float32 2"
  note g = Gamma_init_3_2
  have h: "positive ?a" "positive ?b" "list_all (cdf_kernel whole_fns) (vals ?a)"
    "dtype ?x1 = dtype ?a" "dtype ?x2 = dtype ?a"
    "broadcastable (vals ?x1) (vals ?a)" "broadcastable (vals ?x1) (vals ?b)"
    "positive ?x1" "positive ?x2" "list_all2 (\<le>) (vals ?x1) (vals ?x2)"
    "runs ?a" "runs ?b" "runs ?x1" "runs ?x2"
    by (simp_all add: positive_def runs_def constant_op_def broadcastable_def cdf_kernel_whole_fns)
  have v1: "evaluate (cdf whole_fns gamma_3_2 ?x1) = Inr [1 - exp (- 2) * 5]"
    by (simp add: cdf_3_2) (simp add: whole_fns_def eval_nat_numeral sum.lessThan_Suc fact_numeral)
  have v2: "evaluate (cdf whole_fns gamma_3_2 ?x2) = Inr [1 - exp (- 4) * 13]"
    by (simp add: cdf_3_2) (simp add: whole_fns_def eval_nat_numeral sum.lessThan_Suc fact_numeral)
  from cdf_monotone_and_bounded [of ?a ?b "''Gamma''" gamma_3_2 whole_fns ?x1 ?x2] g h
  obtain r1 r2 where r: "evaluate (cdf whole_fns gamma_3_2 ?x1) = Inr r1"
    "evaluate (cdf whole_fns gamma_3_2 ?x2) = Inr r2"
    "length r1 = blen (length (vals ?a)) (blen (length (vals ?b)) (length (vals ?x1)))"
    "\<forall>i<length r1. r1 ! i \<le> r2 ! i \<and> 0 \<le> r1 ! i \<and> r1 ! i \<le> 1 \<and> 0 \<le> r2 ! i \<and> r2 ! i \<le> 1"
    by blast
  from r(1,2) v1 v2 have eq: "r1 = [1 - exp (- 2) * 5]" "r2 = [1 - exp (- 4) * 13]"
    by simp_all
  from r(4) have "1 - exp (- 2) * 5 \<le> (1 - exp (- 4) * 13 :: real)"
    "0 \<le> (1 - exp (- 2) * 5 :: real)" "1 - exp (- 4) * 13 \<le> (1 :: real)"
    unfolding eq by simp_all
  with g h v1 v2 show ?thesis
    by blast
qed

section \<open>Dtype mismatches\<close>

text \<open>
  Claim C9. Construction from an \<open>alpha\<close> and a \<open>beta\<close> of different dtypes raises
  \<open>TypeMismatchError\<close>, and so do \<open>log_pdf\<close> and \<open>log_cdf\<close> of a constructed
  distribution on an \<open>x\<close> whose dtype is not the dtype of the distribution. Both are
  raised by the call itself, while the graph is built.
\<close>

theorem dtype_mismatch_raises:
  "(dtype a \<noteq> dtype b \<longrightarrow> Gamma_init a b n = Inl TypeMismatchError)
   \<and> (Gamma_init a b n = Inr g \<and> dtype x \<noteq> gamma_dtype g \<longrightarrow>
        log_pdf fns g x = Inl TypeMismatchError \<and> log_cdf fns g x = Inl TypeMismatchError)"
  by (simp add: Gamma_init_eq log_pdf_def log_cdf_def Let_def convert_to_tensor_def
      with_dependencies_def assert_same_float_dtype_def)

theorem dtype_mismatch_raises_witness:
  "dtype (constant_op Float32 3) \<noteq> dtype (constant_op Float64 2)
   \<and> Gamma_init (constant_op Float32 3) (constant_op Float64 2) ''Gamma'' = Inl TypeMismatchError
   \<and> Gamma_init (constant_op Float32 3) (constant_op Float32 2) ''Gamma'' = Inr gamma_3_2
   \<and> dtype (constant_op Float64 1) \<noteq> gamma_dtype gamma_3_2
   \<and> log_pdf whole_fns gamma_3_2 (constant_op Float64 1) = Inl TypeMismatchError
   \<and> log_cdf whole_fns gamma_3_2 (constant_op Float64 1) = Inl TypeMismatchError"
  using dtype_mismatch_raises [of "constant_op Float32 3" "constant_op Float64 2" "''Gamma''"]
    dtype_mismatch_raises [of "constant_op Float32 3" "constant_op Float32 2" "''Gamma''" gamma_3_2
      "constant_op Float64 1" whole_fns] Gamma_init_3_2
  by (simp add: constant_op_def gamma_dtype_def gamma_3_2_def)

section \<open>Entropy\<close>

text \<open>
  Claim C7. \<open>entropy\<close> takes the object only. For a distribution with positive
  parameters it does not fail, and evaluates at every position to
  \<open>alpha - log(beta) + lgamma(alpha) + (1 - alpha) * digamma(alpha)\<close> of the elements at
  that position.
\<close>

theorem entropy_elementwise:
  "Gamma_init a b n = Inr g \<and> positive a \<and> positive b \<and> runs a \<and> runs b \<longrightarrow>
     (\<exists>r. evaluate (entropy fns g) = Inr r
        \<and> length r = blen (length (vals a)) (length (vals b))
        \<and> (\<forall>i<length r. r ! i =
              bidx (vals a) i - fn_log fns (bidx (vals b) i) + fn_lgamma fns (bidx (vals a) i)
              + (1 - bidx (vals a) i) * fn_digamma fns (bidx (vals a) i)))"
  using entropy_general [of a b n g fns] by blast

theorem entropy_elementwise_witness:
  "\<exists>g. Gamma_init (vector Float32 [3, 4]) (vector Float32 [2, 3]) ''Gamma'' = Inr g
      \<and> positive (vector Float32 [3, 4]) \<and> positive (vector Float32 [2, 3])
      \<and> runs (vector Float32 [3, 4]) \<and> runs (vector Float32 [2, 3])
      \<and> evaluate (entropy whole_fns g)
          = Inr [3 - ln 2 + ln 2 + (1 - 3) * (1 + 1 / 2 - euler_gamma),
                 4 - ln 3 + ln 6 + (1 - 4) * (1 + 1 / 2 + 1 / 3 - euler_gamma)]"
proof -
  let ?a = "vector Float32 [3, 4]" and ?b = "vector Float32 [2, 3]"
  obtain g where g: "Gamma_init ?a ?b ''Gamma'' = Inr g"
    by (simp add: Gamma_init_eq vector_def broadcastable_def)
  have h: "positive ?a" "positive ?b" "runs ?a" "runs ?b"
    by (simp_all add: positive_def runs_def vector_def)
  from entropy_elementwise [of ?a ?b "''Gamma''" g whole_fns] g h
  obtain r where r: "evaluate (entropy whole_fns g) = Inr r"
    "length r = blen (length (vals ?a)) (length (vals ?b))"
    "\<forall>i<length r. r ! i =
        bidx (vals ?a) i - fn_log whole_fns (bidx (vals ?b) i) + fn_lgamma whole_fns (bidx (vals ?a) i)
        + (1 - bidx (vals ?a) i) * fn_digamma whole_fns (bidx (vals ?a) i)"
    by blast
  from r(2) have len: "length r = 2"
    by (simp add: vector_def blen_def)
  from r(3) len have "r ! 0 = 3 - ln 2 + ln 2 + (1 - 3) * (1 + 1 / 2 - euler_gamma)"
    "r ! 1 = 4 - ln 3 + ln 6 + (1 - 4) * (1 + 1 / 2 + 1 / 3 - euler_gamma)"
    by (simp_all add: vector_def bidx_def whole_fns_def fact_numeral eval_nat_numeral
        sum.atLeast_Suc_lessThan)
  with list_of_length_2 [OF len]
  have "r = [3 - ln 2 + ln 2 + (1 - 3) * (1 + 1 / 2 - euler_gamma),
             4 - ln 3 + ln 6 + (1 - 4) * (1 + 1 / 2 + 1 / 3 - euler_gamma)]"
    by simp
  with g h r(1) show ?thesis
    by blast
qed

section \<open>Queries are functions of the parameters and the argument\<close>

text \<open>
  Claim C10. A query returns a result and nothing else: no method assigns to an attribute
  of the object. What the density, distribution and entropy methods return depends on
  the object through its \<open>alpha\<close> and \<open>beta\<close> only, and two objects constructed from the
  same \<open>alpha\<close> and \<open>beta\<close>, under any names, agree on every accessor but the name.
\<close>

theorem queries_depend_on_parameters_only:
  "(self_alpha g = self_alpha g' \<and> self_beta g = self_beta g' \<longrightarrow>
      log_pdf fns g x = log_pdf fns g' x \<and> pdf fns g x = pdf fns g' x
      \<and> log_cdf fns g x = log_cdf fns g' x \<and> cdf fns g x = cdf fns g' x
      \<and> entropy fns g = entropy fns g'
      \<and> alpha g = alpha g' \<and> beta g = beta g' \<and> gamma_dtype g = gamma_dtype g')
   \<and> (Gamma_init a b n = Inr g \<and> Gamma_init a b n' = Inr g' \<longrightarrow>
      self_alpha g = self_alpha g' \<and> self_beta g = self_beta g'
      \<and> mean g = mean g' \<and> variance g = variance g'
      \<and> batch_shape g = batch_shape g' \<and> get_batch_shape g = get_batch_shape g'
      \<and> event_shape g = event_shape g' \<and> get_event_shape g = get_event_shape g'
      \<and> is_reparameterized g = is_reparameterized g'
      \<and> name g = n \<and> name g' = n')"
proof -
  have "self_alpha g = self_alpha g' \<and> self_beta g = self_beta g'
      \<and> mean g = mean g' \<and> variance g = variance g'
      \<and> batch_shape g = batch_shape g' \<and> get_batch_shape g = get_batch_shape g'
      \<and> event_shape g = event_shape g' \<and> get_event_shape g = get_event_shape g'
      \<and> is_reparameterized g = is_reparameterized g'
      \<and> name g = n \<and> name g' = n'"
    if "Gamma_init a b n = Inr g" "Gamma_init a b n' = Inr g'"
    by (simp add: Gamma_init_InrD [OF that(1)] Gamma_init_InrD [OF that(2)] mean_def variance_def
        batch_shape_def get_batch_shape_def event_shape_def get_event_shape_def
        is_reparameterized_def name_def)
  moreover have "log_pdf fns g x = log_pdf fns g' x \<and> pdf fns g x = pdf fns g' x
      \<and> log_cdf fns g x = log_cdf fns g' x \<and> cdf fns g x = cdf fns g' x
      \<and> entropy fns g = entropy fns g'
      \<and> alpha g = alpha g' \<and> beta g = beta g' \<and> gamma_dtype g = gamma_dtype g'"
    if "self_alpha g = self_alpha g'" "self_beta g = self_beta g'"
    by (simp add: log_pdf_def pdf_def log_cdf_def cdf_def entropy_def alpha_def beta_def
        gamma_dtype_def Let_def that cong: sum.case_cong)
  ultimately show ?thesis
    by blast
qed

theorem queries_depend_on_parameters_only_witness:
  "\<exists>g'. Gamma_init (constant_op Float32 3) (constant_op Float32 2) ''Gamma'' = Inr gamma_3_2
      \<and> Gamma_init (constant_op Float32 3) (constant_op Float32 2) ''other'' = Inr g'
      \<and> g' \<noteq> gamma_3_2
      \<and> self_alpha gamma_3_2 = self_alpha g' \<and> self_beta gamma_3_2 = self_beta g'
      \<and> log_pdf whole_fns gamma_3_2 (constant_op Float32 1) = log_pdf whole_fns g' (constant_op Float32 1)
      \<and> pdf whole_fns gamma_3_2 (constant_op Float32 1) = pdf whole_fns g' (constant_op Float32 1)
      \<and> log_cdf whole_fns gamma_3_2 (constant_op Float32 1) = log_cdf whole_fns g' (constant_op Float32 1)
      \<and> cdf whole_fns gamma_3_2 (constant_op Float32 1) = cdf whole_fns g' (constant_op Float32 1)
      \<and> entropy whole_fns gamma_3_2 = entropy whole_fns g'
      \<and> mean gamma_3_2 = mean g' \<and> variance gamma_3_2 = variance g'"
proof -
  obtain g' where g': "Gamma_init (constant_op Float32 3) (constant_op Float32 2) ''other'' = Inr g'"
    by (simp add: Gamma_init_eq constant_op_def broadcastable_def)
  from Gamma_init_InrD(3) [OF g'] have "g' \<noteq> gamma_3_2"
    by (auto simp: gamma_3_2_def)
  with queries_depend_on_parameters_only [of gamma_3_2 g' whole_fns "constant_op Float32 1"
      "constant_op Float32 3" "constant_op Float32 2" "''Gamma''" "''other''"] Gamma_init_3_2 g'
  show ?thesis
    by blast
qed

end
